theory Spec2Isabelle
  imports Main "HOL-Library.Word"
begin

section \<open>avvideocompare: the libav video compare element (gstavvidcmp.c)\<close>

text \<open>
  A shallow embedding of \<^verbatim>\<open>subprojects/gst-libav/ext/libav/gstavvidcmp.c\<close>.
  The element instance (\<^verbatim>\<open>GstFFMpegVidCmp\<close>) is a record that every operation
  takes and returns; pointers that may be \<^verbatim>\<open>NULL\<close> are options; the calls into
  libavfilter and into the GStreamer base classes, whose code is not part of the file,
  are the fields of an environment record, so that each of their outcomes is a branch
  of the model; debug-log output is returned as a list of messages.
\<close>

subsection \<open>Data\<close>

type_synonym gint = int
type_synonym guint = nat
type_synonym gboolean = bool
type_synonym byte = "8 word"
type_synonym GstClockTime = "64 word"

text \<open>
  \<^verbatim>\<open>GstVideoFormat\<close>: the seventeen formats of \<^verbatim>\<open>GST_FFMPEGVIDCMP_FORMATS\<close> by name;
  every other value of the enumeration is \<open>GST_VIDEO_FORMAT_OTHER n\<close>.
\<close>

datatype GstVideoFormat =
    GST_VIDEO_FORMAT_UNKNOWN
  | GST_VIDEO_FORMAT_ARGB | GST_VIDEO_FORMAT_BGRA | GST_VIDEO_FORMAT_ABGR
  | GST_VIDEO_FORMAT_RGBA | GST_VIDEO_FORMAT_xRGB | GST_VIDEO_FORMAT_BGRx
  | GST_VIDEO_FORMAT_xBGR | GST_VIDEO_FORMAT_RGBx | GST_VIDEO_FORMAT_RGB16
  | GST_VIDEO_FORMAT_GRAY8 | GST_VIDEO_FORMAT_NV12 | GST_VIDEO_FORMAT_NV21
  | GST_VIDEO_FORMAT_YUY2 | GST_VIDEO_FORMAT_UYVY | GST_VIDEO_FORMAT_I420
  | GST_VIDEO_FORMAT_Y42B | GST_VIDEO_FORMAT_Y444
  | GST_VIDEO_FORMAT_OTHER nat

text \<open>The macro \<^verbatim>\<open>GST_FFMPEGVIDCMP_FORMATS\<close> of the three pad templates, in its order.\<close>

definition GST_FFMPEGVIDCMP_FORMATS :: "GstVideoFormat list" where
  "GST_FFMPEGVIDCMP_FORMATS =
    [GST_VIDEO_FORMAT_ARGB, GST_VIDEO_FORMAT_BGRA, GST_VIDEO_FORMAT_ABGR,
     GST_VIDEO_FORMAT_RGBA, GST_VIDEO_FORMAT_xRGB, GST_VIDEO_FORMAT_BGRx,
     GST_VIDEO_FORMAT_xBGR, GST_VIDEO_FORMAT_RGBx, GST_VIDEO_FORMAT_RGB16,
     GST_VIDEO_FORMAT_GRAY8, GST_VIDEO_FORMAT_NV12, GST_VIDEO_FORMAT_NV21,
     GST_VIDEO_FORMAT_YUY2, GST_VIDEO_FORMAT_UYVY, GST_VIDEO_FORMAT_I420,
     GST_VIDEO_FORMAT_Y42B, GST_VIDEO_FORMAT_Y444]"

text \<open>\<^verbatim>\<open>enum AVPixelFormat\<close>: the failure value and the targets of the seventeen formats.\<close>

datatype AVPixelFormat =
    AV_PIX_FMT_NONE
  | AV_PIX_FMT_ARGB | AV_PIX_FMT_BGRA | AV_PIX_FMT_ABGR | AV_PIX_FMT_RGBA
  | AV_PIX_FMT_0RGB | AV_PIX_FMT_BGR0 | AV_PIX_FMT_0BGR | AV_PIX_FMT_RGB0
  | AV_PIX_FMT_RGB565 | AV_PIX_FMT_GRAY8 | AV_PIX_FMT_NV12 | AV_PIX_FMT_NV21
  | AV_PIX_FMT_YUYV422 | AV_PIX_FMT_UYVY422 | AV_PIX_FMT_YUV420P
  | AV_PIX_FMT_YUV422P | AV_PIX_FMT_YUV444P

text \<open>
  \<^verbatim>\<open>GstVideoInfo\<close>, read in the file through the \<^verbatim>\<open>GST_VIDEO_INFO_*\<close> and
  \<^verbatim>\<open>GST_VIDEO_FRAME_*\<close> macros: the fields carry the macros' names. The per-component
  arrays (\<^verbatim>\<open>finfo->plane\<close>, \<^verbatim>\<open>finfo->poffset\<close>) and the per-plane \<^verbatim>\<open>stride\<close> are
  fixed-size C arrays, here functions of the index.
\<close>

record GstVideoInfo =
  GST_VIDEO_INFO_FORMAT :: GstVideoFormat
  GST_VIDEO_INFO_WIDTH :: gint
  GST_VIDEO_INFO_HEIGHT :: gint
  GST_VIDEO_INFO_FPS_N :: gint
  GST_VIDEO_INFO_FPS_D :: gint
  GST_VIDEO_INFO_N_COMPONENTS :: nat
  GST_VIDEO_INFO_N_PLANES :: nat
  GST_VIDEO_INFO_COMP_PLANE :: "nat \<Rightarrow> nat"
  GST_VIDEO_INFO_COMP_POFFSET :: "nat \<Rightarrow> nat"
  GST_VIDEO_INFO_PLANE_STRIDE :: "nat \<Rightarrow> gint"

text \<open>
  Buffers live in a store, addressed by number, so that the output buffer and the
  reference frame's buffer may or may not be the same object. A buffer carries its
  presentation timestamp, its duration and its pixel data, one byte list per plane
  (the pixel bytes of the plane; the padding a stride adds is not pixel data and is not
  represented).
\<close>

type_synonym addr = nat

record GstBuffer =
  GST_BUFFER_PTS :: GstClockTime
  GST_BUFFER_DURATION :: GstClockTime
  planes :: "byte list list"

type_synonym store = "addr \<Rightarrow> GstBuffer"

text \<open>A mapped \<^verbatim>\<open>GstVideoFrame\<close>: the video info it was mapped with and its buffer.\<close>

record GstVideoFrame =
  frame_info :: GstVideoInfo
  frame_buffer :: addr

text \<open>
  \<^verbatim>\<open>GstVideoAggregatorPad\<close>: the negotiated info of the pad, the frame the base class
  prepared for the current output (\<^verbatim>\<open>NULL\<close> when it has none) and the end-of-stream
  flag the aggregator base class keeps per pad. The file reads the first two only.
\<close>

record GstVideoAggregatorPad =
  pad_info :: GstVideoInfo
  prepared_frame :: "GstVideoFrame option"
  pad_eos :: bool

text \<open>
  libavfilter objects. The format arguments of the graph description built in
  \<^verbatim>\<open>init_filter_graph\<close> are kept as a record instead of the printed string; of a
  graph the model keeps the description it was parsed from.
\<close>

record filter_args =
  arg_width :: gint
  arg_height :: gint
  arg_pix_fmt :: AVPixelFormat
  arg_method :: string
  arg_stats_file :: "string option"

datatype AVFilterGraph = AVFilterGraph (graph_desc: "filter_args option")

datatype AVFilterContext = AVFilterContext string

record AVFrame =
  av_data :: "nat \<Rightarrow> (addr \<times> nat \<times> nat) option"
  av_linesize :: "nat \<Rightarrow> gint"
  av_width :: gint
  av_height :: gint
  av_format :: AVPixelFormat

text \<open>\<^verbatim>\<open>GstFFMpegVidCmpMethod\<close> is a C enum, stored and set as an integer.\<close>

definition GST_FFMPEGVIDCMP_METHOD_SSIM :: gint where
  "GST_FFMPEGVIDCMP_METHOD_SSIM = 0"

definition GST_FFMPEGVIDCMP_METHOD_PSNR :: gint where
  "GST_FFMPEGVIDCMP_METHOD_PSNR = 1"

text \<open>
  The element instance. \<open>vagg_info\<close> is the \<^verbatim>\<open>info\<close> field of the
  \<^verbatim>\<open>GstVideoAggregator\<close> parent; the two pads are held by pointer in C. The C field
  \<^verbatim>\<open>method\<close> is \<open>method_id\<close> here, \<open>method\<close> being an Isabelle keyword.
\<close>

record GstFFMpegVidCmp =
  vagg_info :: GstVideoInfo
  sinkpad1 :: GstVideoAggregatorPad
  sinkpad2 :: GstVideoAggregatorPad
  width :: gint
  height :: gint
  fps_num :: gint
  fps_denom :: gint
  filter_graph :: "AVFilterGraph option"
  in1_ctx :: "AVFilterContext option"
  in2_ctx :: "AVFilterContext option"
  out_ctx :: "AVFilterContext option"
  pixfmt :: AVPixelFormat
  method_id :: gint
  stats_file :: "string option"

definition DEFAULT_STATS_FILE :: string where
  "DEFAULT_STATS_FILE = ''-''"

definition DEFAULT_VIDCMP_METHOD :: gint where
  "DEFAULT_VIDCMP_METHOD = GST_FFMPEGVIDCMP_METHOD_SSIM"

definition PROP_0 :: guint where "PROP_0 = 0"
definition PROP_STATS_FILE :: guint where "PROP_STATS_FILE = 1"
definition PROP_VIDCMP_METHOD :: guint where "PROP_VIDCMP_METHOD = 2"

text \<open>Debug-log output: the level and the format string of each message.\<close>

datatype log_level = GST_LEVEL_ERROR | GST_LEVEL_WARNING | GST_LEVEL_INFO

type_synonym log = "(log_level \<times> string) list"

text \<open>A \<^verbatim>\<open>GValue\<close> holds a string (possibly \<^verbatim>\<open>NULL\<close>) or an enum value.\<close>

datatype GValue = G_TYPE_STRING "string option" | G_TYPE_ENUM gint

text \<open>
  The glib accessors return \<^verbatim>\<open>NULL\<close> and \<^verbatim>\<open>0\<close> on a value of the other type
  (\<^verbatim>\<open>g_return_val_if_fail\<close>).
\<close>

fun g_value_get_string :: "GValue \<Rightarrow> string option" where
  "g_value_get_string (G_TYPE_STRING s) = s"
| "g_value_get_string (G_TYPE_ENUM _) = None"

fun g_value_get_enum :: "GValue \<Rightarrow> gint" where
  "g_value_get_enum (G_TYPE_ENUM e) = e"
| "g_value_get_enum (G_TYPE_STRING _) = 0"

subsection \<open>Reset and caps\<close>

text \<open>
  \<^verbatim>\<open>gst_ffmpegvidcmp_reset\<close>. \<^verbatim>\<open>avfilter_graph_free\<close> frees the graph and sets the
  pointer to \<^verbatim>\<open>NULL\<close>; with the pointer already \<^verbatim>\<open>NULL\<close> it stays so.
\<close>

definition gst_ffmpegvidcmp_reset :: "GstFFMpegVidCmp \<Rightarrow> GstFFMpegVidCmp" where
  "gst_ffmpegvidcmp_reset self =
     self\<lparr>width := -1, height := -1, fps_num := 0, fps_denom := 1,
          pixfmt := AV_PIX_FMT_NONE,
          in1_ctx := None, in2_ctx := None, out_ctx := None,
          filter_graph := None\<rparr>"

text \<open>
  Modelled from the spec: \<^verbatim>\<open>gst_ffmpeg_videoformat_to_pixfmt\<close>, declared in
  \<^verbatim>\<open>gstavcodecmap.h\<close> and defined outside this file. The spec (sections 3 and 7) makes
  the supported pixel formats a closed set, each with a mapped pixel format, and every
  format outside it unsupported: the seventeen formats map to their libav
  counterparts, everything else to \<^verbatim>\<open>AV_PIX_FMT_NONE\<close>. The functions of the file take
  the mapping as a parameter; this is the mapping the sample inputs and the theorem on
  the closed set use.
\<close>

fun gst_ffmpeg_videoformat_to_pixfmt :: "GstVideoFormat \<Rightarrow> AVPixelFormat" where
  "gst_ffmpeg_videoformat_to_pixfmt GST_VIDEO_FORMAT_ARGB = AV_PIX_FMT_ARGB"
| "gst_ffmpeg_videoformat_to_pixfmt GST_VIDEO_FORMAT_BGRA = AV_PIX_FMT_BGRA"
| "gst_ffmpeg_videoformat_to_pixfmt GST_VIDEO_FORMAT_ABGR = AV_PIX_FMT_ABGR"
| "gst_ffmpeg_videoformat_to_pixfmt GST_VIDEO_FORMAT_RGBA = AV_PIX_FMT_RGBA"
| "gst_ffmpeg_videoformat_to_pixfmt GST_VIDEO_FORMAT_xRGB = AV_PIX_FMT_0RGB"
| "gst_ffmpeg_videoformat_to_pixfmt GST_VIDEO_FORMAT_BGRx = AV_PIX_FMT_BGR0"
| "gst_ffmpeg_videoformat_to_pixfmt GST_VIDEO_FORMAT_xBGR = AV_PIX_FMT_0BGR"
| "gst_ffmpeg_videoformat_to_pixfmt GST_VIDEO_FORMAT_RGBx = AV_PIX_FMT_RGB0"
| "gst_ffmpeg_videoformat_to_pixfmt GST_VIDEO_FORMAT_RGB16 = AV_PIX_FMT_RGB565"
| "gst_ffmpeg_videoformat_to_pixfmt GST_VIDEO_FORMAT_GRAY8 = AV_PIX_FMT_GRAY8"
| "gst_ffmpeg_videoformat_to_pixfmt GST_VIDEO_FORMAT_NV12 = AV_PIX_FMT_NV12"
| "gst_ffmpeg_videoformat_to_pixfmt GST_VIDEO_FORMAT_NV21 = AV_PIX_FMT_NV21"
| "gst_ffmpeg_videoformat_to_pixfmt GST_VIDEO_FORMAT_YUY2 = AV_PIX_FMT_YUYV422"
| "gst_ffmpeg_videoformat_to_pixfmt GST_VIDEO_FORMAT_UYVY = AV_PIX_FMT_UYVY422"
| "gst_ffmpeg_videoformat_to_pixfmt GST_VIDEO_FORMAT_I420 = AV_PIX_FMT_YUV420P"
| "gst_ffmpeg_videoformat_to_pixfmt GST_VIDEO_FORMAT_Y42B = AV_PIX_FMT_YUV422P"
| "gst_ffmpeg_videoformat_to_pixfmt GST_VIDEO_FORMAT_Y444 = AV_PIX_FMT_YUV444P"
| "gst_ffmpeg_videoformat_to_pixfmt GST_VIDEO_FORMAT_UNKNOWN = AV_PIX_FMT_NONE"
| "gst_ffmpeg_videoformat_to_pixfmt (GST_VIDEO_FORMAT_OTHER _) = AV_PIX_FMT_NONE"

text \<open>
  \<^verbatim>\<open>gst_ffmpegvidcmp_setcaps\<close>. Two functions it calls are defined outside the file
  and are parameters here: \<open>from_caps\<close> stands for \<^verbatim>\<open>gst_video_info_init\<close> followed
  by \<^verbatim>\<open>gst_video_info_from_caps\<close> (GStreamer video library), \<open>None\<close> when the caps do
  not parse; \<open>to_pixfmt\<close> stands for \<^verbatim>\<open>gst_ffmpeg_videoformat_to_pixfmt\<close>. The four
  geometry fields are stored before the pixel format is looked at, as in the C; the
  error message is logged on the failure path.
\<close>

definition gst_ffmpegvidcmp_setcaps ::
  "('caps \<Rightarrow> GstVideoInfo option) \<Rightarrow> (GstVideoFormat \<Rightarrow> AVPixelFormat)
     \<Rightarrow> GstFFMpegVidCmp \<Rightarrow> 'caps \<Rightarrow> gboolean \<times> GstFFMpegVidCmp \<times> log" where
  "gst_ffmpegvidcmp_setcaps from_caps to_pixfmt self caps =
     (case from_caps caps of
        None \<Rightarrow> (False, self, [])
      | Some vinfo \<Rightarrow>
          let self1 = self\<lparr>width := GST_VIDEO_INFO_WIDTH vinfo,
                           height := GST_VIDEO_INFO_HEIGHT vinfo,
                           fps_num := GST_VIDEO_INFO_FPS_N vinfo,
                           fps_denom := GST_VIDEO_INFO_FPS_D vinfo\<rparr>;
              self2 = self1\<lparr>pixfmt := to_pixfmt (GST_VIDEO_INFO_FORMAT vinfo)\<rparr>
          in if pixfmt self2 = AV_PIX_FMT_NONE
             then (False, self2,
                   [(GST_LEVEL_ERROR, ''failed to find suitable ffmpeg pixfmt'')])
             else (True, self2, []))"

text \<open>
  \<^verbatim>\<open>gst_ffmpegvidcmp_sink_event\<close>. A caps event that \<open>setcaps\<close> rejects is dropped and
  \<^verbatim>\<open>FALSE\<close> returned; every other event, and an accepted caps event, goes on to the
  parent class's handler \<open>parent_sink_event\<close>, whose answer is returned.
\<close>

datatype 'caps GstEvent = GST_EVENT_CAPS 'caps | GST_EVENT_OTHER nat

definition gst_ffmpegvidcmp_sink_event ::
  "('caps \<Rightarrow> GstVideoInfo option) \<Rightarrow> (GstVideoFormat \<Rightarrow> AVPixelFormat)
     \<Rightarrow> ('caps GstEvent \<Rightarrow> gboolean)
     \<Rightarrow> GstFFMpegVidCmp \<Rightarrow> 'caps GstEvent \<Rightarrow> gboolean \<times> GstFFMpegVidCmp \<times> log" where
  "gst_ffmpegvidcmp_sink_event from_caps to_pixfmt parent_sink_event self event =
     (case event of
        GST_EVENT_CAPS caps \<Rightarrow>
          (case gst_ffmpegvidcmp_setcaps from_caps to_pixfmt self caps of
             (ok, self1, lg) \<Rightarrow>
               if \<not> ok then (False, self1, lg)
               else (parent_sink_event event, self1, lg))
      | GST_EVENT_OTHER _ \<Rightarrow> (parent_sink_event event, self, []))"

subsection \<open>Properties\<close>

text \<open>
  \<^verbatim>\<open>gst_ffmpegvidcmp_set_property\<close>. Both writable properties are guarded by
  \<^verbatim>\<open>self->filter_graph\<close>: with a graph present the value is left alone and a warning
  logged. Any other property id gets glib's invalid-property warning.
\<close>

definition gst_ffmpegvidcmp_set_property ::
  "GstFFMpegVidCmp \<Rightarrow> guint \<Rightarrow> GValue \<Rightarrow> GstFFMpegVidCmp \<times> log" where
  "gst_ffmpegvidcmp_set_property self prop_id val =
     (if prop_id = PROP_STATS_FILE then
        (if filter_graph self \<noteq> None
         then (self, [(GST_LEVEL_WARNING,
                 ''changing the stats file after the filter graph is initialized is not supported'')])
         else (self\<lparr>stats_file := g_value_get_string val\<rparr>, []))
      else if prop_id = PROP_VIDCMP_METHOD then
        (if filter_graph self \<noteq> None
         then (self, [(GST_LEVEL_WARNING,
                 ''changing the method after the filter graph is initialized is not supported'')])
         else (self\<lparr>method_id := g_value_get_enum val\<rparr>, []))
      else (self, [(GST_LEVEL_WARNING, ''invalid property id'')]))"

text \<open>\<^verbatim>\<open>gst_ffmpegvidcmp_get_property\<close>; \<open>None\<close> for an invalid property id.\<close>

definition gst_ffmpegvidcmp_get_property ::
  "GstFFMpegVidCmp \<Rightarrow> guint \<Rightarrow> GValue option" where
  "gst_ffmpegvidcmp_get_property self prop_id =
     (if prop_id = PROP_STATS_FILE then Some (G_TYPE_STRING (stats_file self))
      else if prop_id = PROP_VIDCMP_METHOD then Some (G_TYPE_ENUM (method_id self))
      else None)"

text \<open>
  \<^verbatim>\<open>gst_ffmpegvidcmp_init\<close>: reset, then the two defaults. The pads are created here
  in C; the model takes the instance with its pads and leaves them as they are.
\<close>

definition gst_ffmpegvidcmp_init :: "GstFFMpegVidCmp \<Rightarrow> GstFFMpegVidCmp" where
  "gst_ffmpegvidcmp_init self =
     (gst_ffmpegvidcmp_reset self)\<lparr>stats_file := Some DEFAULT_STATS_FILE,
                                   method_id := DEFAULT_VIDCMP_METHOD\<rparr>"

subsection \<open>The filter graph\<close>

text \<open>
  The calls the file makes into glib, libavfilter, libavutil and the GStreamer video
  library. Each field gives the outcome of one call: \<open>g_vasprintf\<close> the length of the
  formatted description or a negative value; \<open>avfilter_graph_alloc\<close> and
  \<open>av_frame_alloc\<close> whether the allocation succeeds; \<open>avfilter_graph_parse2\<close> the
  result code and whether unlinked inputs or outputs are left; the others the result
  code or the object they return. The libraries read the frames they are handed: no
  call of the environment writes to the store of buffers.
\<close>

record env =
  g_vasprintf :: "filter_args \<Rightarrow> gint"
  avfilter_graph_alloc :: bool
  avfilter_graph_parse2 :: "filter_args \<Rightarrow> gint \<times> bool"
  avfilter_graph_config :: "AVFilterGraph \<Rightarrow> gint"
  avfilter_graph_get_filter :: "AVFilterGraph \<Rightarrow> string \<Rightarrow> AVFilterContext option"
  av_buffersrc_add_frame :: "AVFilterContext \<Rightarrow> AVFrame \<Rightarrow> gint"
  av_frame_alloc :: bool
  av_buffersink_get_frame :: "AVFilterContext \<Rightarrow> AVFrame \<Rightarrow> gint"
  gst_video_frame_map :: "GstVideoInfo \<Rightarrow> GstBuffer \<Rightarrow> gboolean"

text \<open>\<^verbatim>\<open>_make_str\<close>: the variadic wrapper around \<^verbatim>\<open>g_vasprintf\<close>.\<close>

definition make_str :: "env \<Rightarrow> filter_args \<Rightarrow> gint" where
  "make_str e args = g_vasprintf e args"

text \<open>The table of \<^verbatim>\<open>gst_ffmpegvidcmp_method_get_type\<close>: value, name, nick.\<close>

definition enum_values :: "(gint \<times> string \<times> string) list" where
  "enum_values =
     [(GST_FFMPEGVIDCMP_METHOD_SSIM, ''SSIM'', ''ssim''),
      (GST_FFMPEGVIDCMP_METHOD_PSNR, ''PSNR'', ''psnr'')]"

definition g_enum_get_value ::
  "(gint \<times> string \<times> string) list \<Rightarrow> gint \<Rightarrow> (gint \<times> string \<times> string) option" where
  "g_enum_get_value vs v = find (\<lambda>e. fst e = v) vs"

definition value_nick :: "gint \<times> string \<times> string \<Rightarrow> string" where
  "value_nick e = snd (snd e)"

text \<open>
  \<^verbatim>\<open>init_filter_graph\<close>. The graph pointer is stored as soon as the allocation
  returns, so each later failure leaves a graph in \<^verbatim>\<open>self->filter_graph\<close> with some
  or all of the three contexts still \<^verbatim>\<open>NULL\<close>.
\<close>

definition init_filter_graph ::
  "env \<Rightarrow> GstFFMpegVidCmp \<Rightarrow> gint \<times> GstFFMpegVidCmp \<times> log" where
  "init_filter_graph e self =
     (case g_enum_get_value enum_values (method_id self) of
        None \<Rightarrow> (-1, self, [(GST_LEVEL_ERROR, ''unknown compare method'')])
      | Some m \<Rightarrow>
          let lg = [(GST_LEVEL_INFO, ''    method : %s''),
                    (GST_LEVEL_INFO, ''stats-file : %s'')];
              args = \<lparr>arg_width = width self, arg_height = height self,
                      arg_pix_fmt = pixfmt self, arg_method = value_nick m,
                      arg_stats_file = stats_file self\<rparr>;
              res = make_str e args
          in if res < 0
             then (res, self,
                   lg @ [(GST_LEVEL_ERROR, ''failed to format filter graph arguments'')])
             else if \<not> avfilter_graph_alloc e
             then (-1, self\<lparr>filter_graph := None\<rparr>,
                   lg @ [(GST_LEVEL_ERROR, ''failed to allocate filter graph'')])
             else
               let self1 = self\<lparr>filter_graph := Some (AVFilterGraph None)\<rparr>;
                   (res, unlinked) = avfilter_graph_parse2 e args
               in if res < 0
                  then (res, self1,
                        lg @ [(GST_LEVEL_ERROR, ''failed to parse filter graph'')])
                  else
                    let g = AVFilterGraph (Some args);
                        self2 = self1\<lparr>filter_graph := Some g\<rparr>
                    in if unlinked
                       then (-1, self2,
                             lg @ [(GST_LEVEL_ERROR,
                                    ''unlinked inputs/outputs in filter graph'')])
                       else
                         let res = avfilter_graph_config e g
                         in if res < 0
                            then (res, self2,
                                  lg @ [(GST_LEVEL_ERROR,
                                         ''failed to configure filter graph'')])
                            else
                              let self3 = self2\<lparr>
                                    in1_ctx := avfilter_graph_get_filter e g ''Parsed_buffer_0'',
                                    in2_ctx := avfilter_graph_get_filter e g ''Parsed_buffer_1'',
                                    out_ctx :=
                                      avfilter_graph_get_filter e g ''Parsed_buffersink_3''\<rparr>
                              in if in1_ctx self3 = None \<or> in2_ctx self3 = None
                                    \<or> out_ctx self3 = None
                                 then (-1, self3,
                                       lg @ [(GST_LEVEL_ERROR,
                                              ''failed to get filter contexts'')])
                                 else (res, self3, lg))"

text \<open>
  The C hands \<^verbatim>\<open>self->in1_ctx\<close>, \<^verbatim>\<open>self->in2_ctx\<close> and \<^verbatim>\<open>self->out_ctx\<close> to libavfilter
  and writes through the result of \<^verbatim>\<open>av_frame_alloc\<close> without a check. A \<^verbatim>\<open>NULL\<close>
  there is a dereference of \<^verbatim>\<open>NULL\<close>: the model stops with a fault.
\<close>

datatype fault = NULL_DEREFERENCE

text \<open>A frame as \<^verbatim>\<open>av_frame_alloc\<close> returns it: nothing set, no format.\<close>

definition av_frame_defaults :: AVFrame where
  "av_frame_defaults =
     \<lparr>av_data = (\<lambda>_. None), av_linesize = (\<lambda>_. 0), av_width = 0, av_height = 0,
      av_format = AV_PIX_FMT_NONE\<rparr>"

text \<open>
  \<^verbatim>\<open>process_filter_graph\<close>: the graph is built on the first call that finds none;
  both frames are pushed, one output frame is pulled and dropped. The frame pulled
  holds the scores in its metadata; the function reads none of it and returns the
  result code only.
\<close>

definition process_filter_graph ::
  "env \<Rightarrow> GstFFMpegVidCmp \<Rightarrow> AVFrame \<Rightarrow> AVFrame
     \<Rightarrow> fault + (gint \<times> GstFFMpegVidCmp \<times> log)" where
  "process_filter_graph e self in1 in2 =
     (let (res0, self1, lg) =
            (if filter_graph self = None then init_filter_graph e self
             else (0, self, []))
      in if res0 < 0 then Inr (res0, self1, lg)
         else
           (case in1_ctx self1 of
              None \<Rightarrow> Inl NULL_DEREFERENCE
            | Some c1 \<Rightarrow>
                let res = av_buffersrc_add_frame e c1 in1
                in if res < 0 then Inr (res, self1, lg)
                   else
                     (case in2_ctx self1 of
                        None \<Rightarrow> Inl NULL_DEREFERENCE
                      | Some c2 \<Rightarrow>
                          let res = av_buffersrc_add_frame e c2 in2
                          in if res < 0 then Inr (res, self1, lg)
                             else if \<not> av_frame_alloc e then Inl NULL_DEREFERENCE
                             else
                               let out = av_frame_defaults\<lparr>av_width := width self1,
                                           av_height := height self1,
                                           av_format := pixfmt self1\<rparr>
                               in (case out_ctx self1 of
                                     None \<Rightarrow> Inl NULL_DEREFERENCE
                                   | Some oc \<Rightarrow>
                                       Inr (av_buffersink_get_frame e oc out, self1, lg)))))"

subsection \<open>Frames\<close>

definition GST_VIDEO_FRAME_N_COMPONENTS :: "GstVideoFrame \<Rightarrow> nat" where
  "GST_VIDEO_FRAME_N_COMPONENTS f = GST_VIDEO_INFO_N_COMPONENTS (frame_info f)"

definition GST_VIDEO_FRAME_N_PLANES :: "GstVideoFrame \<Rightarrow> nat" where
  "GST_VIDEO_FRAME_N_PLANES f = GST_VIDEO_INFO_N_PLANES (frame_info f)"

definition GST_VIDEO_FRAME_WIDTH :: "GstVideoFrame \<Rightarrow> gint" where
  "GST_VIDEO_FRAME_WIDTH f = GST_VIDEO_INFO_WIDTH (frame_info f)"

definition GST_VIDEO_FRAME_HEIGHT :: "GstVideoFrame \<Rightarrow> gint" where
  "GST_VIDEO_FRAME_HEIGHT f = GST_VIDEO_INFO_HEIGHT (frame_info f)"

text \<open>
  A component's data pointer: the buffer, the plane the component lies in and the
  component's offset in the plane.
\<close>

definition GST_VIDEO_FRAME_COMP_DATA :: "GstVideoFrame \<Rightarrow> nat \<Rightarrow> addr \<times> nat \<times> nat" where
  "GST_VIDEO_FRAME_COMP_DATA f c =
     (frame_buffer f, GST_VIDEO_INFO_COMP_PLANE (frame_info f) c,
      GST_VIDEO_INFO_COMP_POFFSET (frame_info f) c)"

definition GST_VIDEO_FRAME_COMP_STRIDE :: "GstVideoFrame \<Rightarrow> nat \<Rightarrow> gint" where
  "GST_VIDEO_FRAME_COMP_STRIDE f c =
     GST_VIDEO_INFO_PLANE_STRIDE (frame_info f) (GST_VIDEO_INFO_COMP_PLANE (frame_info f) c)"

text \<open>\<^verbatim>\<open>AVFrame avref = { 0, }\<close>: all pointers \<^verbatim>\<open>NULL\<close>, format 0.\<close>

definition AVFrame_zero :: AVFrame where
  "AVFrame_zero =
     \<lparr>av_data = (\<lambda>_. None), av_linesize = (\<lambda>_. 0), av_width = 0, av_height = 0,
      av_format = AV_PIX_FMT_YUV420P\<rparr>"

text \<open>\<^verbatim>\<open>_fill_avpicture\<close>: one data pointer and line size per component.\<close>

definition fill_avpicture ::
  "GstFFMpegVidCmp \<Rightarrow> AVFrame \<Rightarrow> GstVideoFrame \<Rightarrow> AVFrame" where
  "fill_avpicture self picture vframe =
     (let p = fold (\<lambda>i p. p\<lparr>av_data := (av_data p)(i := Some (GST_VIDEO_FRAME_COMP_DATA vframe i)),
                            av_linesize := (av_linesize p)(i := GST_VIDEO_FRAME_COMP_STRIDE vframe i)\<rparr>)
                   [0 ..< GST_VIDEO_FRAME_N_COMPONENTS vframe] picture
      in p\<lparr>av_width := GST_VIDEO_FRAME_WIDTH vframe,
           av_height := GST_VIDEO_FRAME_HEIGHT vframe,
           av_format := pixfmt self\<rparr>)"

text \<open>
  Modelled from the spec: \<^verbatim>\<open>gst_video_frame_copy\<close> and its per-plane step
  \<^verbatim>\<open>gst_video_frame_copy_plane\<close> (GStreamer video library, outside this file). The
  spec (section 4.5) has the reference copied into the output buffer by "a full
  plane-wise copy": for each plane of the destination's format the destination
  buffer's plane is overwritten by the source buffer's plane, read from the store as it
  is at that moment. A plane that either buffer does not have is left alone. Nothing
  else of the destination buffer is written, and the source is only read.
\<close>

definition gst_video_frame_copy_plane ::
  "store \<Rightarrow> GstVideoFrame \<Rightarrow> GstVideoFrame \<Rightarrow> nat \<Rightarrow> store" where
  "gst_video_frame_copy_plane st dest src i =
     (let d = st (frame_buffer dest); s = st (frame_buffer src)
      in if i < length (planes d) \<and> i < length (planes s)
         then st(frame_buffer dest := d\<lparr>planes := (planes d)[i := planes s ! i]\<rparr>)
         else st)"

definition gst_video_frame_copy :: "store \<Rightarrow> GstVideoFrame \<Rightarrow> GstVideoFrame \<Rightarrow> store" where
  "gst_video_frame_copy st dest src =
     fold (\<lambda>i st'. gst_video_frame_copy_plane st' dest src i)
          [0 ..< GST_VIDEO_FRAME_N_PLANES dest] st"

subsection \<open>Aggregation\<close>

datatype GstFlowReturn = GST_FLOW_OK | GST_FLOW_EOS | GST_FLOW_ERROR

definition gst_video_aggregator_pad_get_prepared_frame ::
  "GstVideoAggregatorPad \<Rightarrow> GstVideoFrame option" where
  "gst_video_aggregator_pad_get_prepared_frame pad = prepared_frame pad"

text \<open>
  \<^verbatim>\<open>gst_ffmpegvidcmp_aggregate_frames\<close>, called by the base class with the output
  buffer \<open>outbuf\<close> it allocated and stamped. With both prepared frames present the
  pair is compared, a failure of the comparison is logged, and the output buffer is
  mapped with the aggregator's output info and filled from the reference frame; a
  failing map gives \<^verbatim>\<open>GST_FLOW_ERROR\<close>. With either frame missing the answer is
  \<^verbatim>\<open>GST_FLOW_EOS\<close>.
\<close>

definition gst_ffmpegvidcmp_aggregate_frames ::
  "env \<Rightarrow> GstFFMpegVidCmp \<Rightarrow> store \<Rightarrow> addr
     \<Rightarrow> fault + (GstFlowReturn \<times> GstFFMpegVidCmp \<times> store \<times> log)" where
  "gst_ffmpegvidcmp_aggregate_frames e self st outbuf =
     (case (gst_video_aggregator_pad_get_prepared_frame (sinkpad1 self),
            gst_video_aggregator_pad_get_prepared_frame (sinkpad2 self)) of
        (Some ref, Some cmp) \<Rightarrow>
          let avref = fill_avpicture self AVFrame_zero ref;
              avcmp = fill_avpicture self AVFrame_zero cmp
          in (case process_filter_graph e self avref avcmp of
                Inl f \<Rightarrow> Inl f
              | Inr (r, self1, lg) \<Rightarrow>
                  let lg1 = (if r < 0
                             then lg @ [(GST_LEVEL_WARNING, ''Could not process filter graph'')]
                             else lg)
                  in if \<not> gst_video_frame_map e (vagg_info self1) (st outbuf)
                     then Inr (GST_FLOW_ERROR, self1, st, lg1)
                     else
                       let out = \<lparr>frame_info = vagg_info self1, frame_buffer = outbuf\<rparr>
                       in Inr (GST_FLOW_OK, self1, gst_video_frame_copy st out ref, lg1))
      | _ \<Rightarrow> Inr (GST_FLOW_EOS, self, st, []))"

text \<open>
  \<^verbatim>\<open>gst_ffmpegvidcmp_update_caps\<close>: the caps proposed by the base class are not used;
  the parent class's handler gets the element and the caps made from the first sink
  pad's info.
\<close>

definition gst_ffmpegvidcmp_update_caps ::
  "(GstVideoInfo \<Rightarrow> 'caps) \<Rightarrow> (GstFFMpegVidCmp \<Rightarrow> 'caps \<Rightarrow> 'caps)
     \<Rightarrow> GstFFMpegVidCmp \<Rightarrow> 'caps \<Rightarrow> 'caps" where
  "gst_ffmpegvidcmp_update_caps gst_video_info_to_caps parent_update_caps self caps =
     (let vaggpad = sinkpad1 self
      in parent_update_caps self (gst_video_info_to_caps (pad_info vaggpad)))"

subsection \<open>Sample inputs\<close>

text \<open>
  Concrete inputs the theorems below are run on: a 2x2 and a 4x4 \<^verbatim>\<open>GRAY8\<close> video
  info, the same info with a format outside the supported set, an element with a
  prepared frame on each sink pad (buffers 1 and 2), an output buffer (3) that the base
  class stamped with its own timestamp and duration, and environments in which every
  library call succeeds or one of them fails. Caps are represented by the video info
  they parse to.
\<close>

definition gray8_2x2 :: GstVideoInfo where
  "gray8_2x2 =
     \<lparr>GST_VIDEO_INFO_FORMAT = GST_VIDEO_FORMAT_GRAY8,
      GST_VIDEO_INFO_WIDTH = 2, GST_VIDEO_INFO_HEIGHT = 2,
      GST_VIDEO_INFO_FPS_N = 30, GST_VIDEO_INFO_FPS_D = 1,
      GST_VIDEO_INFO_N_COMPONENTS = 1, GST_VIDEO_INFO_N_PLANES = 1,
      GST_VIDEO_INFO_COMP_PLANE = (\<lambda>_. 0), GST_VIDEO_INFO_COMP_POFFSET = (\<lambda>_. 0),
      GST_VIDEO_INFO_PLANE_STRIDE = (\<lambda>_. 4)\<rparr>"

definition gray8_4x4 :: GstVideoInfo where
  "gray8_4x4 = gray8_2x2\<lparr>GST_VIDEO_INFO_WIDTH := 4, GST_VIDEO_INFO_HEIGHT := 4\<rparr>"

definition other_2x2 :: GstVideoInfo where
  "other_2x2 = gray8_2x2\<lparr>GST_VIDEO_INFO_FORMAT := GST_VIDEO_FORMAT_OTHER 3\<rparr>"

definition sample_pad :: "addr \<Rightarrow> GstVideoAggregatorPad" where
  "sample_pad a =
     \<lparr>pad_info = gray8_2x2,
      prepared_frame = Some \<lparr>frame_info = gray8_2x2, frame_buffer = a\<rparr>,
      pad_eos = False\<rparr>"

definition sample_elem :: GstFFMpegVidCmp where
  "sample_elem =
     gst_ffmpegvidcmp_init
       \<lparr>vagg_info = gray8_2x2, sinkpad1 = sample_pad 1, sinkpad2 = sample_pad 2,
        width = 0, height = 0, fps_num = 0, fps_denom = 0, filter_graph = None,
        in1_ctx = None, in2_ctx = None, out_ctx = None, pixfmt = AV_PIX_FMT_NONE,
        method_id = 0, stats_file = None\<rparr>"

abbreviation sample_setcaps ::
  "GstFFMpegVidCmp \<Rightarrow> GstVideoInfo \<Rightarrow> gboolean \<times> GstFFMpegVidCmp \<times> log" where
  "sample_setcaps \<equiv> gst_ffmpegvidcmp_setcaps Some gst_ffmpeg_videoformat_to_pixfmt"

definition sample_configured :: GstFFMpegVidCmp where
  "sample_configured = fst (snd (sample_setcaps sample_elem gray8_2x2))"

definition sample_store :: store where
  "sample_store =
     (\<lambda>_. \<lparr>GST_BUFFER_PTS = 0, GST_BUFFER_DURATION = 0, planes = []\<rparr>)
       (1 := \<lparr>GST_BUFFER_PTS = 1000, GST_BUFFER_DURATION = 40,
              planes = [[100, 100, 100, 100]]\<rparr>,
        2 := \<lparr>GST_BUFFER_PTS = 1000, GST_BUFFER_DURATION = 40,
              planes = [[110, 110, 110, 110]]\<rparr>,
        3 := \<lparr>GST_BUFFER_PTS = 2000, GST_BUFFER_DURATION = 33,
              planes = [[0, 0, 0, 0]]\<rparr>)"

definition calls_ok :: env where
  "calls_ok =
     \<lparr>g_vasprintf = (\<lambda>_. 100), avfilter_graph_alloc = True,
      avfilter_graph_parse2 = (\<lambda>_. (0, False)), avfilter_graph_config = (\<lambda>_. 0),
      avfilter_graph_get_filter = (\<lambda>_ n. Some (AVFilterContext n)),
      av_buffersrc_add_frame = (\<lambda>_ _. 0), av_frame_alloc = True,
      av_buffersink_get_frame = (\<lambda>_ _. 0), gst_video_frame_map = (\<lambda>_ _. True)\<rparr>"

definition calls_no_memory :: env where
  "calls_no_memory = calls_ok\<lparr>avfilter_graph_alloc := False\<rparr>"

definition calls_metric_fail :: env where
  "calls_metric_fail = calls_ok\<lparr>av_buffersink_get_frame := (\<lambda>_ _. -1)\<rparr>"

definition calls_metric_and_map_fail :: env where
  "calls_metric_and_map_fail = calls_metric_fail\<lparr>gst_video_frame_map := (\<lambda>_ _. False)\<rparr>"

text \<open>
  The element after its first pair, compared and forwarded with every library call
  succeeding; and the configured element at a moment when the base class has no frame for
  the first pad although neither pad is at end-of-stream.
\<close>

definition sample_running :: GstFFMpegVidCmp where
  "sample_running =
     fst (snd (projr (gst_ffmpegvidcmp_aggregate_frames calls_ok sample_configured
                        sample_store 3)))"

definition sample_starved :: GstFFMpegVidCmp where
  "sample_starved = sample_configured\<lparr>sinkpad1 := (sample_pad 1)\<lparr>prepared_frame := None\<rparr>\<rparr>"

text \<open>The parts of what \<^verbatim>\<open>aggregate_frames\<close> returns, for statements on concrete runs.\<close>

abbreviation returns :: "fault + 'a \<Rightarrow> bool" where
  "returns R \<equiv> \<not> isl R"

abbreviation ret_flow :: "fault + (GstFlowReturn \<times> GstFFMpegVidCmp \<times> store \<times> log) \<Rightarrow> GstFlowReturn" where
  "ret_flow R \<equiv> fst (projr R)"

abbreviation ret_self :: "fault + (GstFlowReturn \<times> GstFFMpegVidCmp \<times> store \<times> log) \<Rightarrow> GstFFMpegVidCmp" where
  "ret_self R \<equiv> fst (snd (projr R))"

abbreviation ret_store :: "fault + (GstFlowReturn \<times> GstFFMpegVidCmp \<times> store \<times> log) \<Rightarrow> store" where
  "ret_store R \<equiv> fst (snd (snd (projr R)))"

abbreviation ret_log :: "fault + (GstFlowReturn \<times> GstFFMpegVidCmp \<times> store \<times> log) \<Rightarrow> log" where
  "ret_log R \<equiv> snd (snd (snd (projr R)))"

section \<open>Properties\<close>

subsection \<open>What the filter graph functions leave alone\<close>

lemma init_filter_graph_keeps:
  assumes "init_filter_graph e self = (r, self', lg)"
  shows "vagg_info self' = vagg_info self" "sinkpad1 self' = sinkpad1 self"
    "sinkpad2 self' = sinkpad2 self" "width self' = width self" "height self' = height self"
    "fps_num self' = fps_num self" "fps_denom self' = fps_denom self"
    "pixfmt self' = pixfmt self" "method_id self' = method_id self"
    "stats_file self' = stats_file self"
  using assms
  by (auto simp: init_filter_graph_def Let_def split: option.splits prod.splits if_splits)

lemma init_filter_graph_success:
  assumes "init_filter_graph e self = (r, self', lg)" "0 \<le> r"
  shows "filter_graph self' \<noteq> None" "in1_ctx self' \<noteq> None" "in2_ctx self' \<noteq> None"
    "out_ctx self' \<noteq> None"
  using assms
  by (auto simp: init_filter_graph_def Let_def split: option.splits prod.splits if_splits)

lemma process_filter_graph_keeps:
  assumes "process_filter_graph e self a b = Inr (r, self', lg)"
  shows "vagg_info self' = vagg_info self" "sinkpad1 self' = sinkpad1 self"
    "sinkpad2 self' = sinkpad2 self" "width self' = width self" "height self' = height self"
    "fps_num self' = fps_num self" "fps_denom self' = fps_denom self"
    "pixfmt self' = pixfmt self" "method_id self' = method_id self"
    "stats_file self' = stats_file self"
proof -
  obtain r0 s0 l0 where i: "init_filter_graph e self = (r0, s0, l0)"
    by (cases "init_filter_graph e self") auto
  have "self' = s0 \<or> self' = self"
    using assms i
    by (auto simp: process_filter_graph_def Let_def split: option.splits prod.splits if_splits)
  then show "vagg_info self' = vagg_info self" "sinkpad1 self' = sinkpad1 self"
    "sinkpad2 self' = sinkpad2 self" "width self' = width self" "height self' = height self"
    "fps_num self' = fps_num self" "fps_denom self' = fps_denom self"
    "pixfmt self' = pixfmt self" "method_id self' = method_id self"
    "stats_file self' = stats_file self"
    using init_filter_graph_keeps [OF i] by auto
qed

lemma process_filter_graph_success:
  assumes "process_filter_graph e self a b = Inr (r, self', lg)" "0 \<le> r"
  shows "filter_graph self' \<noteq> None"
proof (cases "filter_graph self = None")
  case True
  obtain r0 s0 l0 where i: "init_filter_graph e self = (r0, s0, l0)"
    by (cases "init_filter_graph e self") auto
  have "self' = s0 \<and> 0 \<le> r0"
    using assms i True
    by (auto simp: process_filter_graph_def Let_def split: option.splits prod.splits if_splits)
  then show ?thesis using init_filter_graph_success(1) [OF i] by auto
next
  case False
  then have "self' = self"
    using assms
    by (auto simp: process_filter_graph_def Let_def split: option.splits prod.splits if_splits)
  with False show ?thesis by simp
qed

text \<open>
  When the description cannot be formatted or the graph cannot be allocated, an element
  without a graph is left exactly as it was, and the comparison returns a negative
  result instead of faulting.
\<close>

lemma filter_graph_update_same:
  "filter_graph self = None \<Longrightarrow> self\<lparr>filter_graph := None\<rparr> = self"
  by (cases self) simp

lemma init_filter_graph_not_allocated:
  assumes "filter_graph self = None"
    and "(\<forall>m. g_enum_get_value enum_values (method_id self) = Some m \<longrightarrow>
            make_str e \<lparr>arg_width = width self, arg_height = height self,
                         arg_pix_fmt = pixfmt self, arg_method = value_nick m,
                         arg_stats_file = stats_file self\<rparr> < 0)
         \<or> \<not> avfilter_graph_alloc e"
  shows "\<exists>r lg. init_filter_graph e self = (r, self, lg) \<and> r < 0"
  using assms
  by (auto simp: init_filter_graph_def Let_def filter_graph_update_same
        split: option.splits prod.splits)

lemma process_filter_graph_not_allocated:
  assumes "filter_graph self = None"
    and "(\<forall>m. g_enum_get_value enum_values (method_id self) = Some m \<longrightarrow>
            make_str e \<lparr>arg_width = width self, arg_height = height self,
                         arg_pix_fmt = pixfmt self, arg_method = value_nick m,
                         arg_stats_file = stats_file self\<rparr> < 0)
         \<or> \<not> avfilter_graph_alloc e"
  shows "\<exists>r lg. process_filter_graph e self a b = Inr (r, self, lg) \<and> r < 0"
proof -
  obtain r lg where i: "init_filter_graph e self = (r, self, lg)" "r < 0"
    using init_filter_graph_not_allocated [OF assms] by blast
  then have "process_filter_graph e self a b = Inr (r, self, lg)"
    using assms(1) by (simp add: process_filter_graph_def)
  with i(2) show ?thesis by blast
qed

lemma aggregate_frames_not_allocated:
  assumes "filter_graph self = None"
    and "(\<forall>m. g_enum_get_value enum_values (method_id self) = Some m \<longrightarrow>
            make_str e \<lparr>arg_width = width self, arg_height = height self,
                         arg_pix_fmt = pixfmt self, arg_method = value_nick m,
                         arg_stats_file = stats_file self\<rparr> < 0)
         \<or> \<not> avfilter_graph_alloc e"
  shows "\<exists>flow st' lg. gst_ffmpegvidcmp_aggregate_frames e self st outbuf
           = Inr (flow, self, st', lg)"
proof (cases "prepared_frame (sinkpad1 self) = None \<or> prepared_frame (sinkpad2 self) = None")
  case True
  then show ?thesis
    by (auto simp: gst_ffmpegvidcmp_aggregate_frames_def
          gst_video_aggregator_pad_get_prepared_frame_def split: option.splits)
next
  case False
  then obtain ref cmp where f: "prepared_frame (sinkpad1 self) = Some ref"
      "prepared_frame (sinkpad2 self) = Some cmp"
    by auto
  obtain r lg where p: "process_filter_graph e self (fill_avpicture self AVFrame_zero ref)
      (fill_avpicture self AVFrame_zero cmp) = Inr (r, self, lg)"
    using process_filter_graph_not_allocated [OF assms] by blast
  show ?thesis
    using f p
    by (simp add: gst_ffmpegvidcmp_aggregate_frames_def
          gst_video_aggregator_pad_get_prepared_frame_def Let_def)
qed

subsection \<open>The plane-wise copy\<close>

lemma copy_plane_other:
  "a \<noteq> frame_buffer dest \<Longrightarrow> gst_video_frame_copy_plane st dest src i a = st a"
  by (simp add: gst_video_frame_copy_plane_def Let_def)

lemma copy_plane_meta:
  "GST_BUFFER_PTS (gst_video_frame_copy_plane st dest src i a) = GST_BUFFER_PTS (st a)"
  "GST_BUFFER_DURATION (gst_video_frame_copy_plane st dest src i a) = GST_BUFFER_DURATION (st a)"
  "length (planes (gst_video_frame_copy_plane st dest src i a)) = length (planes (st a))"
  by (simp_all add: gst_video_frame_copy_plane_def Let_def)

lemma copy_plane_alias:
  "frame_buffer dest = frame_buffer src \<Longrightarrow> gst_video_frame_copy_plane st dest src i = st"
  by (auto simp: gst_video_frame_copy_plane_def Let_def fun_eq_iff)

lemma copy_plane_nth:
  assumes "frame_buffer dest \<noteq> frame_buffer src" "j < length (planes (st (frame_buffer dest)))"
  shows "planes (gst_video_frame_copy_plane st dest src i (frame_buffer dest)) ! j =
         (if j = i \<and> i < length (planes (st (frame_buffer src)))
          then planes (st (frame_buffer src)) ! j
          else planes (st (frame_buffer dest)) ! j)"
  using assms by (auto simp: gst_video_frame_copy_plane_def Let_def)

lemma copy_fold_other:
  "a \<noteq> frame_buffer dest \<Longrightarrow>
   fold (\<lambda>i st'. gst_video_frame_copy_plane st' dest src i) [0 ..< k] st a = st a"
  by (induction k) (simp_all add: copy_plane_other)

lemma copy_fold_meta:
  "GST_BUFFER_PTS (fold (\<lambda>i st'. gst_video_frame_copy_plane st' dest src i) [0 ..< k] st a)
     = GST_BUFFER_PTS (st a)"
  "GST_BUFFER_DURATION (fold (\<lambda>i st'. gst_video_frame_copy_plane st' dest src i) [0 ..< k] st a)
     = GST_BUFFER_DURATION (st a)"
  "length (planes (fold (\<lambda>i st'. gst_video_frame_copy_plane st' dest src i) [0 ..< k] st a))
     = length (planes (st a))"
  by (induction k) (simp_all add: copy_plane_meta)

lemma copy_fold_alias:
  "frame_buffer dest = frame_buffer src \<Longrightarrow>
   fold (\<lambda>i st'. gst_video_frame_copy_plane st' dest src i) [0 ..< k] st = st"
  by (induction k) (simp_all add: copy_plane_alias)

lemma copy_fold_nth:
  assumes "frame_buffer dest \<noteq> frame_buffer src" "j < length (planes (st (frame_buffer dest)))"
  shows "planes (fold (\<lambda>i st'. gst_video_frame_copy_plane st' dest src i) [0 ..< k] st
            (frame_buffer dest)) ! j =
         (if j < k \<and> j < length (planes (st (frame_buffer src)))
          then planes (st (frame_buffer src)) ! j
          else planes (st (frame_buffer dest)) ! j)"
proof (induction k)
  case 0
  then show ?case by simp
next
  case (Suc k)
  let ?st = "fold (\<lambda>i st'. gst_video_frame_copy_plane st' dest src i) [0 ..< k] st"
  have src: "?st (frame_buffer src) = st (frame_buffer src)"
    using assms(1) by (simp add: copy_fold_other)
  have len: "j < length (planes (?st (frame_buffer dest)))"
    using assms(2) by (simp add: copy_fold_meta)
  show ?case
    using Suc copy_plane_nth [of dest src j ?st k] assms(1) len src
    by (auto simp: less_Suc_eq)
qed

lemma gst_video_frame_copy_planes:
  assumes "length (planes (st (frame_buffer dest))) = GST_VIDEO_FRAME_N_PLANES dest"
    "length (planes (st (frame_buffer src))) = GST_VIDEO_FRAME_N_PLANES dest"
  shows "planes (gst_video_frame_copy st dest src (frame_buffer dest))
           = planes (st (frame_buffer src))"
proof (cases "frame_buffer dest = frame_buffer src")
  case True
  then show ?thesis by (simp add: gst_video_frame_copy_def copy_fold_alias)
next
  case False
  show ?thesis
    unfolding gst_video_frame_copy_def
    by (rule nth_equalityI) (simp_all add: copy_fold_meta copy_fold_nth [OF False] assms)
qed

lemma gst_video_frame_copy_source:
  "gst_video_frame_copy st dest src (frame_buffer src) = st (frame_buffer src)"
  by (cases "frame_buffer dest = frame_buffer src")
     (simp_all add: gst_video_frame_copy_def copy_fold_alias copy_fold_other)

lemma gst_video_frame_copy_other:
  "a \<noteq> frame_buffer dest \<Longrightarrow> gst_video_frame_copy st dest src a = st a"
  by (simp add: gst_video_frame_copy_def copy_fold_other)

lemma gst_video_frame_copy_meta:
  "GST_BUFFER_PTS (gst_video_frame_copy st dest src a) = GST_BUFFER_PTS (st a)"
  "GST_BUFFER_DURATION (gst_video_frame_copy st dest src a) = GST_BUFFER_DURATION (st a)"
  by (simp_all add: gst_video_frame_copy_def copy_fold_meta)

subsection \<open>Runs on the sample inputs\<close>

lemmas sample_defs =
  sample_configured_def sample_elem_def sample_pad_def sample_store_def gray8_2x2_def
  calls_ok_def calls_no_memory_def calls_metric_fail_def calls_metric_and_map_fail_def
  gst_ffmpegvidcmp_init_def gst_ffmpegvidcmp_reset_def gst_ffmpegvidcmp_setcaps_def
  DEFAULT_STATS_FILE_def DEFAULT_VIDCMP_METHOD_def
  GST_FFMPEGVIDCMP_METHOD_SSIM_def GST_FFMPEGVIDCMP_METHOD_PSNR_def

lemmas run_defs =
  gst_ffmpegvidcmp_aggregate_frames_def gst_video_aggregator_pad_get_prepared_frame_def
  process_filter_graph_def init_filter_graph_def make_str_def g_enum_get_value_def
  enum_values_def
  value_nick_def gst_video_frame_copy_def gst_video_frame_copy_plane_def
  GST_VIDEO_FRAME_N_PLANES_def Let_def

lemma run_ok:
  "returns (gst_ffmpegvidcmp_aggregate_frames calls_ok sample_configured sample_store 3)"
  "ret_flow (gst_ffmpegvidcmp_aggregate_frames calls_ok sample_configured sample_store 3) = GST_FLOW_OK"
  "planes (ret_store (gst_ffmpegvidcmp_aggregate_frames calls_ok sample_configured sample_store 3) 3) = [[100,100,100,100]]"
  "GST_BUFFER_PTS (ret_store (gst_ffmpegvidcmp_aggregate_frames calls_ok sample_configured sample_store 3) 3) = 2000"
  "filter_graph (ret_self (gst_ffmpegvidcmp_aggregate_frames calls_ok sample_configured sample_store 3)) \<noteq> None"
  "ret_log (gst_ffmpegvidcmp_aggregate_frames calls_ok sample_configured sample_store 3) = 
     [(GST_LEVEL_INFO, ''    method : %s''), (GST_LEVEL_INFO, ''stats-file : %s'')]"
  by (simp_all add: sample_defs run_defs)

lemma run_nomem:
  "returns (gst_ffmpegvidcmp_aggregate_frames calls_no_memory sample_configured sample_store 3)"
  "ret_flow (gst_ffmpegvidcmp_aggregate_frames calls_no_memory sample_configured sample_store 3) = GST_FLOW_OK"
  "planes (ret_store (gst_ffmpegvidcmp_aggregate_frames calls_no_memory sample_configured sample_store 3) 3) = [[100,100,100,100]]"
  "filter_graph (ret_self (gst_ffmpegvidcmp_aggregate_frames calls_no_memory sample_configured sample_store 3)) = None"
  by (simp_all add: sample_defs run_defs)

lemma Inr_projr: "returns R \<Longrightarrow> R = Inr (fst (projr R), fst (snd (projr R)), fst (snd (snd (projr R))), snd (snd (snd (projr R))))"
  by (cases R) auto

lemma run_metric_fails:
  "process_filter_graph calls_metric_fail sample_configured
     (fill_avpicture sample_configured AVFrame_zero \<lparr>frame_info = gray8_2x2, frame_buffer = 1\<rparr>)
     (fill_avpicture sample_configured AVFrame_zero \<lparr>frame_info = gray8_2x2, frame_buffer = 2\<rparr>)
   = Inr (- 1,
          fst (snd (projr (process_filter_graph calls_metric_fail sample_configured
            (fill_avpicture sample_configured AVFrame_zero
               \<lparr>frame_info = gray8_2x2, frame_buffer = 1\<rparr>)
            (fill_avpicture sample_configured AVFrame_zero
               \<lparr>frame_info = gray8_2x2, frame_buffer = 2\<rparr>)))),
          [(GST_LEVEL_INFO, ''    method : %s''), (GST_LEVEL_INFO, ''stats-file : %s'')])"
  (is "?P = _")
proof -
  have "returns ?P" "fst (projr ?P) = - 1"
    "snd (snd (projr ?P)) =
       [(GST_LEVEL_INFO, ''    method : %s''), (GST_LEVEL_INFO, ''stats-file : %s'')]"
    by (simp_all add: sample_defs run_defs)
  then show ?thesis
    by (cases ?P) auto
qed

lemma run_metric_and_map_fail:
  "process_filter_graph calls_metric_and_map_fail sample_configured
     (fill_avpicture sample_configured AVFrame_zero \<lparr>frame_info = gray8_2x2, frame_buffer = 1\<rparr>)
     (fill_avpicture sample_configured AVFrame_zero \<lparr>frame_info = gray8_2x2, frame_buffer = 2\<rparr>)
   = Inr (- 1,
          fst (snd (projr (process_filter_graph calls_metric_and_map_fail sample_configured
            (fill_avpicture sample_configured AVFrame_zero
               \<lparr>frame_info = gray8_2x2, frame_buffer = 1\<rparr>)
            (fill_avpicture sample_configured AVFrame_zero
               \<lparr>frame_info = gray8_2x2, frame_buffer = 2\<rparr>)))),
          [(GST_LEVEL_INFO, ''    method : %s''), (GST_LEVEL_INFO, ''stats-file : %s'')])"
  (is "?P = _")
proof -
  have "returns ?P" "fst (projr ?P) = - 1"
    "snd (snd (projr ?P)) =
       [(GST_LEVEL_INFO, ''    method : %s''), (GST_LEVEL_INFO, ''stats-file : %s'')]"
    by (simp_all add: sample_defs run_defs)
  then show ?thesis
    by (cases ?P) auto
qed

lemma sample_running_facts:
  "filter_graph sample_running \<noteq> None" "width sample_running = 2"
  "height sample_running = 2" "method_id sample_running = GST_FFMPEGVIDCMP_METHOD_SSIM"
  "stats_file sample_running = Some ''-''"
  unfolding sample_running_def by (simp_all add: sample_defs run_defs)

lemma sample_configured_frames:
  "prepared_frame (sinkpad1 sample_configured)
     = Some \<lparr>frame_info = gray8_2x2, frame_buffer = 1\<rparr>"
  "prepared_frame (sinkpad2 sample_configured)
     = Some \<lparr>frame_info = gray8_2x2, frame_buffer = 2\<rparr>"
  "GST_VIDEO_INFO_N_PLANES (vagg_info sample_configured) = 1"
  by (simp_all add: sample_defs Let_def)

lemma in_formats_iff:
  "f \<in> set GST_FFMPEGVIDCMP_FORMATS
     \<longleftrightarrow> gst_ffmpeg_videoformat_to_pixfmt f \<noteq> AV_PIX_FMT_NONE"
  by (cases f) (simp_all add: GST_FFMPEGVIDCMP_FORMATS_def)

subsection \<open>Forwarding of the reference frame\<close>

text \<open>
  Claim C1, as amended. Whenever \<^verbatim>\<open>aggregate_frames\<close> returns \<^verbatim>\<open>GST_FLOW_OK\<close>, a
  reference frame was present and the store it leaves is the store it got with the
  reference copied plane by plane into the output buffer. When both buffers hold the
  planes of the output format, the output buffer's pixel data are then exactly the
  reference frame's. The reference frame's buffer is as it was (also when it is the
  output buffer itself), and so is every buffer other than the output buffer. The
  timestamp and the duration of the output buffer are not written: they stay what the
  base class put there, and are not taken from the reference buffer.
\<close>

theorem aggregate_frames_output_is_reference_pixels:
  assumes "gst_ffmpegvidcmp_aggregate_frames e self st outbuf = Inr (GST_FLOW_OK, self', st', lg)"
  shows "\<exists>ref. prepared_frame (sinkpad1 self) = Some ref
           \<and> st' = gst_video_frame_copy st
                     \<lparr>frame_info = vagg_info self, frame_buffer = outbuf\<rparr> ref
           \<and> (length (planes (st outbuf)) = GST_VIDEO_INFO_N_PLANES (vagg_info self)
                \<and> length (planes (st (frame_buffer ref))) = GST_VIDEO_INFO_N_PLANES (vagg_info self)
              \<longrightarrow> planes (st' outbuf) = planes (st (frame_buffer ref)))
           \<and> st' (frame_buffer ref) = st (frame_buffer ref)
           \<and> (\<forall>a. a \<noteq> outbuf \<longrightarrow> st' a = st a)
           \<and> GST_BUFFER_PTS (st' outbuf) = GST_BUFFER_PTS (st outbuf)
           \<and> GST_BUFFER_DURATION (st' outbuf) = GST_BUFFER_DURATION (st outbuf)"
proof -
  obtain ref cmp where f: "prepared_frame (sinkpad1 self) = Some ref"
      "prepared_frame (sinkpad2 self) = Some cmp"
    using assms
    by (auto simp: gst_ffmpegvidcmp_aggregate_frames_def
          gst_video_aggregator_pad_get_prepared_frame_def split: option.splits)
  let ?out = "\<lparr>frame_info = vagg_info self, frame_buffer = outbuf\<rparr>"
  obtain r l where p: "process_filter_graph e self (fill_avpicture self AVFrame_zero ref)
      (fill_avpicture self AVFrame_zero cmp) = Inr (r, self', l)"
    and st': "st' = gst_video_frame_copy st \<lparr>frame_info = vagg_info self', frame_buffer = outbuf\<rparr> ref"
    using assms f
    by (auto simp: gst_ffmpegvidcmp_aggregate_frames_def
          gst_video_aggregator_pad_get_prepared_frame_def Let_def
          split: sum.splits prod.splits if_splits)
  have v: "vagg_info self' = vagg_info self"
    using process_filter_graph_keeps(1) [OF p] .
  have c: "st' = gst_video_frame_copy st ?out ref"
    using st' v by simp
  have 1: "length (planes (st outbuf)) = GST_VIDEO_INFO_N_PLANES (vagg_info self)
           \<and> length (planes (st (frame_buffer ref))) = GST_VIDEO_INFO_N_PLANES (vagg_info self)
           \<longrightarrow> planes (st' outbuf) = planes (st (frame_buffer ref))"
    using gst_video_frame_copy_planes [of st ?out ref]
    by (simp add: c GST_VIDEO_FRAME_N_PLANES_def)
  have 2: "st' (frame_buffer ref) = st (frame_buffer ref)"
    by (simp add: c gst_video_frame_copy_source)
  have 3: "\<forall>a. a \<noteq> outbuf \<longrightarrow> st' a = st a"
    by (simp add: c gst_video_frame_copy_other)
  have 4: "GST_BUFFER_PTS (st' outbuf) = GST_BUFFER_PTS (st outbuf)"
    "GST_BUFFER_DURATION (st' outbuf) = GST_BUFFER_DURATION (st outbuf)"
    by (simp_all add: c gst_video_frame_copy_meta)
  show ?thesis using f(1) c 1 2 3 4 by blast
qed

text \<open>
  The run on the sample inputs: the output buffer 3 ends with the pixels of the reference
  buffer 1, which is unchanged, and keeps its own timestamp.
\<close>

theorem aggregate_frames_output_is_reference_pixels_witness:
  "ret_flow (gst_ffmpegvidcmp_aggregate_frames calls_ok sample_configured sample_store 3)
     = GST_FLOW_OK
   \<and> planes (ret_store (gst_ffmpegvidcmp_aggregate_frames calls_ok sample_configured
                           sample_store 3) 3) = planes (sample_store 1)
   \<and> ret_store (gst_ffmpegvidcmp_aggregate_frames calls_ok sample_configured
                   sample_store 3) 1 = sample_store 1
   \<and> GST_BUFFER_PTS (ret_store (gst_ffmpegvidcmp_aggregate_frames calls_ok sample_configured
                                   sample_store 3) 3) = GST_BUFFER_PTS (sample_store 3)"
proof -
  let ?R = "gst_ffmpegvidcmp_aggregate_frames calls_ok sample_configured sample_store 3"
  have r: "?R = Inr (GST_FLOW_OK, ret_self ?R, ret_store ?R, ret_log ?R)"
    using Inr_projr [OF run_ok(1)] run_ok(2) by simp
  have l: "length (planes (sample_store 3)) = 1" "length (planes (sample_store 1)) = 1"
    by (simp_all add: sample_store_def)
  show ?thesis
    using aggregate_frames_output_is_reference_pixels [OF r] sample_configured_frames l
      run_ok(2)
    by auto
qed

text \<open>
  Claim C1 as stated fails on the timestamp and the duration: the pair of the sample
  inputs completes, and the output buffer carries timestamp 2000 and duration 33 where
  the reference buffer has 1000 and 40.
\<close>

theorem forwarded_timestamp_counterexample:
  "returns (gst_ffmpegvidcmp_aggregate_frames calls_ok sample_configured sample_store 3)
   \<and> ret_flow (gst_ffmpegvidcmp_aggregate_frames calls_ok sample_configured sample_store 3)
       = GST_FLOW_OK
   \<and> prepared_frame (sinkpad1 sample_configured)
       = Some \<lparr>frame_info = gray8_2x2, frame_buffer = 1\<rparr>
   \<and> GST_BUFFER_PTS (ret_store (gst_ffmpegvidcmp_aggregate_frames calls_ok sample_configured
                                   sample_store 3) 3) \<noteq> GST_BUFFER_PTS (sample_store 1)
   \<and> GST_BUFFER_DURATION (ret_store (gst_ffmpegvidcmp_aggregate_frames calls_ok
                                        sample_configured sample_store 3) 3)
       \<noteq> GST_BUFFER_DURATION (sample_store 1)"
  by (simp add: sample_defs run_defs)

subsection \<open>A failing comparison\<close>

text \<open>
  Claim C2, as amended. With both frames present and a comparison that returns a
  negative result: when the output buffer maps for writing, \<^verbatim>\<open>aggregate_frames\<close>
  returns \<^verbatim>\<open>GST_FLOW_OK\<close>, the store has the reference copied into the output buffer,
  and the log of the comparison is followed by the one warning; when the output buffer
  does not map, it returns \<^verbatim>\<open>GST_FLOW_ERROR\<close> with the same log and warning, and the
  store is the one it was given: nothing is copied.
\<close>

theorem aggregate_frames_metric_failure_forwards:
  assumes "prepared_frame (sinkpad1 self) = Some ref"
    and "prepared_frame (sinkpad2 self) = Some cmp"
    and "process_filter_graph e self (fill_avpicture self AVFrame_zero ref)
           (fill_avpicture self AVFrame_zero cmp) = Inr (r, self', lg)"
    and "r < 0"
  shows "(gst_video_frame_map e (vagg_info self) (st outbuf) \<longrightarrow>
            gst_ffmpegvidcmp_aggregate_frames e self st outbuf =
              Inr (GST_FLOW_OK, self',
                   gst_video_frame_copy st
                     \<lparr>frame_info = vagg_info self, frame_buffer = outbuf\<rparr> ref,
                   lg @ [(GST_LEVEL_WARNING, ''Could not process filter graph'')]))
       \<and> (\<not> gst_video_frame_map e (vagg_info self) (st outbuf) \<longrightarrow>
            gst_ffmpegvidcmp_aggregate_frames e self st outbuf =
              Inr (GST_FLOW_ERROR, self', st,
                   lg @ [(GST_LEVEL_WARNING, ''Could not process filter graph'')]))"
proof -
  have v: "vagg_info self' = vagg_info self"
    using process_filter_graph_keeps(1) [OF assms(3)] .
  show ?thesis
    using assms v
    by (simp add: gst_ffmpegvidcmp_aggregate_frames_def
          gst_video_aggregator_pad_get_prepared_frame_def Let_def)
qed

text \<open>
  On the sample inputs, with a sink that returns \<open>-1\<close>: where the output buffer maps,
  the frame is forwarded, the answer is \<^verbatim>\<open>GST_FLOW_OK\<close> and the warning is the last
  log entry; where it does not map, the answer is \<^verbatim>\<open>GST_FLOW_ERROR\<close>, the store is
  unchanged and the warning is logged all the same.
\<close>

theorem aggregate_frames_metric_failure_forwards_witness:
  "ret_flow (gst_ffmpegvidcmp_aggregate_frames calls_metric_fail sample_configured sample_store 3)
     = GST_FLOW_OK
   \<and> planes (ret_store (gst_ffmpegvidcmp_aggregate_frames calls_metric_fail sample_configured
                           sample_store 3) 3) = [[100, 100, 100, 100]]
   \<and> ret_log (gst_ffmpegvidcmp_aggregate_frames calls_metric_fail sample_configured
                 sample_store 3)
       = [(GST_LEVEL_INFO, ''    method : %s''), (GST_LEVEL_INFO, ''stats-file : %s''),
          (GST_LEVEL_WARNING, ''Could not process filter graph'')]
   \<and> ret_flow (gst_ffmpegvidcmp_aggregate_frames calls_metric_and_map_fail sample_configured
                  sample_store 3) = GST_FLOW_ERROR
   \<and> ret_store (gst_ffmpegvidcmp_aggregate_frames calls_metric_and_map_fail sample_configured
                   sample_store 3) = sample_store
   \<and> ret_log (gst_ffmpegvidcmp_aggregate_frames calls_metric_and_map_fail sample_configured
                 sample_store 3)
       = [(GST_LEVEL_INFO, ''    method : %s''), (GST_LEVEL_INFO, ''stats-file : %s''),
          (GST_LEVEL_WARNING, ''Could not process filter graph'')]"
proof -
  have m: "gst_video_frame_map calls_metric_fail (vagg_info sample_configured) (sample_store 3)"
    "\<not> gst_video_frame_map calls_metric_and_map_fail (vagg_info sample_configured)
         (sample_store 3)"
    by (simp_all add: sample_defs)
  have c: "planes (gst_video_frame_copy sample_store
              \<lparr>frame_info = vagg_info sample_configured, frame_buffer = 3\<rparr>
              \<lparr>frame_info = gray8_2x2, frame_buffer = 1\<rparr> 3) = [[100, 100, 100, 100]]"
    by (simp add: sample_defs run_defs)
  have neg: "(- 1 :: gint) < 0"
    by simp
  show ?thesis
    using aggregate_frames_metric_failure_forwards
            [where st = sample_store and outbuf = 3,
             OF sample_configured_frames(1,2) run_metric_fails neg]
          aggregate_frames_metric_failure_forwards
            [where st = sample_store and outbuf = 3,
             OF sample_configured_frames(1,2) run_metric_and_map_fail neg] m c
    by simp
qed

text \<open>
  Claim C2 as stated fails when the output buffer does not map: both frames are present,
  the comparison returns a negative result, and \<^verbatim>\<open>aggregate_frames\<close> returns
  \<^verbatim>\<open>GST_FLOW_ERROR\<close> with the output buffer untouched.
\<close>

theorem metric_and_map_failure_counterexample:
  "prepared_frame (sinkpad1 sample_configured) = Some \<lparr>frame_info = gray8_2x2, frame_buffer = 1\<rparr>
   \<and> prepared_frame (sinkpad2 sample_configured) = Some \<lparr>frame_info = gray8_2x2, frame_buffer = 2\<rparr>
   \<and> returns (process_filter_graph calls_metric_and_map_fail sample_configured
        (fill_avpicture sample_configured AVFrame_zero \<lparr>frame_info = gray8_2x2, frame_buffer = 1\<rparr>)
        (fill_avpicture sample_configured AVFrame_zero \<lparr>frame_info = gray8_2x2, frame_buffer = 2\<rparr>))
   \<and> fst (projr (process_filter_graph calls_metric_and_map_fail sample_configured
        (fill_avpicture sample_configured AVFrame_zero \<lparr>frame_info = gray8_2x2, frame_buffer = 1\<rparr>)
        (fill_avpicture sample_configured AVFrame_zero \<lparr>frame_info = gray8_2x2, frame_buffer = 2\<rparr>)))
       < 0
   \<and> returns (gst_ffmpegvidcmp_aggregate_frames calls_metric_and_map_fail sample_configured
                 sample_store 3)
   \<and> ret_flow (gst_ffmpegvidcmp_aggregate_frames calls_metric_and_map_fail sample_configured
                  sample_store 3) = GST_FLOW_ERROR
   \<and> planes (ret_store (gst_ffmpegvidcmp_aggregate_frames calls_metric_and_map_fail
                           sample_configured sample_store 3) 3) = [[0, 0, 0, 0]]
   \<and> planes (sample_store 1) = [[100, 100, 100, 100]]"
  by (simp add: sample_defs run_defs)

subsection \<open>The guard on the two properties\<close>

text \<open>
  Claim C3, as amended. In every state in which the filter graph is present, a set of
  \<^verbatim>\<open>stats-file\<close> or of \<^verbatim>\<open>method\<close> leaves the whole element as it was and logs one
  warning; and the filter graph is present after every comparison that returned a
  non-negative result. In every state without a filter graph, the set stores the new
  value, changes nothing else of the element and logs nothing. The element has no filter
  graph when it is freshly initialised, and an element without one still has none, and is
  otherwise unchanged too, after \<^verbatim>\<open>aggregate_frames\<close> ran with a graph description
  that cannot be formatted or a graph that cannot be allocated (and it does return
  there).
\<close>

theorem set_property_refused_with_filter_graph:
  "(filter_graph self \<noteq> None \<longrightarrow>
      fst (gst_ffmpegvidcmp_set_property self PROP_STATS_FILE v) = self
    \<and> snd (gst_ffmpegvidcmp_set_property self PROP_STATS_FILE v) =
        [(GST_LEVEL_WARNING,
          ''changing the stats file after the filter graph is initialized is not supported'')]
    \<and> fst (gst_ffmpegvidcmp_set_property self PROP_VIDCMP_METHOD v) = self
    \<and> snd (gst_ffmpegvidcmp_set_property self PROP_VIDCMP_METHOD v) =
        [(GST_LEVEL_WARNING,
          ''changing the method after the filter graph is initialized is not supported'')])
   \<and> (process_filter_graph e self0 a b = Inr (r, self, lg) \<and> 0 \<le> r
        \<longrightarrow> filter_graph self \<noteq> None)
   \<and> (filter_graph self = None \<longrightarrow>
        gst_ffmpegvidcmp_set_property self PROP_STATS_FILE v
          = (self\<lparr>stats_file := g_value_get_string v\<rparr>, [])
      \<and> gst_ffmpegvidcmp_set_property self PROP_VIDCMP_METHOD v
          = (self\<lparr>method_id := g_value_get_enum v\<rparr>, []))
   \<and> filter_graph (gst_ffmpegvidcmp_init self1) = None
   \<and> (filter_graph self = None
        \<and> ((\<forall>m. g_enum_get_value enum_values (method_id self) = Some m \<longrightarrow>
            make_str e \<lparr>arg_width = width self, arg_height = height self,
                         arg_pix_fmt = pixfmt self, arg_method = value_nick m,
                         arg_stats_file = stats_file self\<rparr> < 0)
         \<or> \<not> avfilter_graph_alloc e)
      \<longrightarrow> (\<exists>flow st' lg'. gst_ffmpegvidcmp_aggregate_frames e self st outbuf
                             = Inr (flow, self, st', lg')))"
  using process_filter_graph_success [of e self0 a b r self lg]
    aggregate_frames_not_allocated [of self e st outbuf]
  by (simp add: gst_ffmpegvidcmp_set_property_def PROP_STATS_FILE_def PROP_VIDCMP_METHOD_def
        gst_ffmpegvidcmp_init_def gst_ffmpegvidcmp_reset_def)

text \<open>
  In the element that has compared its first pair both sets are refused with their
  warning: the method stays SSIM and the stats file stays the default. In the fresh
  element both sets store their value and log nothing. A pair handled while the graph
  cannot be allocated leaves the configured element as it was.
\<close>

theorem set_property_refused_with_filter_graph_witness:
  "filter_graph sample_running \<noteq> None
   \<and> gst_ffmpegvidcmp_set_property sample_running PROP_VIDCMP_METHOD
       (G_TYPE_ENUM GST_FFMPEGVIDCMP_METHOD_PSNR)
     = (sample_running,
        [(GST_LEVEL_WARNING,
          ''changing the method after the filter graph is initialized is not supported'')])
   \<and> gst_ffmpegvidcmp_set_property sample_running PROP_STATS_FILE
       (G_TYPE_STRING (Some ''stats.log''))
     = (sample_running,
        [(GST_LEVEL_WARNING,
          ''changing the stats file after the filter graph is initialized is not supported'')])
   \<and> method_id sample_running = GST_FFMPEGVIDCMP_METHOD_SSIM
   \<and> stats_file sample_running = Some ''-''
   \<and> filter_graph sample_elem = None
   \<and> gst_ffmpegvidcmp_set_property sample_elem PROP_VIDCMP_METHOD
       (G_TYPE_ENUM GST_FFMPEGVIDCMP_METHOD_PSNR)
     = (sample_elem\<lparr>method_id := GST_FFMPEGVIDCMP_METHOD_PSNR\<rparr>, [])
   \<and> gst_ffmpegvidcmp_set_property sample_elem PROP_STATS_FILE
       (G_TYPE_STRING (Some ''stats.log''))
     = (sample_elem\<lparr>stats_file := Some ''stats.log''\<rparr>, [])
   \<and> ret_self (gst_ffmpegvidcmp_aggregate_frames calls_no_memory sample_configured
                   sample_store 3) = sample_configured"
proof -
  have e: "filter_graph sample_elem = None"
    by (simp add: sample_elem_def gst_ffmpegvidcmp_init_def gst_ffmpegvidcmp_reset_def)
  have n: "filter_graph sample_configured = None" "\<not> avfilter_graph_alloc calls_no_memory"
    by (simp_all add: sample_defs Let_def)
  have "\<exists>flow st' lg'. gst_ffmpegvidcmp_aggregate_frames calls_no_memory sample_configured
                            sample_store 3 = Inr (flow, sample_configured, st', lg')"
    using set_property_refused_with_filter_graph
            [where self = sample_configured and e = calls_no_memory
               and st = sample_store and outbuf = 3,
             THEN conjunct2, THEN conjunct2, THEN conjunct2, THEN conjunct2] n
    by blast
  then obtain flow st' lg' where
    "gst_ffmpegvidcmp_aggregate_frames calls_no_memory sample_configured sample_store 3
       = Inr (flow, sample_configured, st', lg')"
    by blast
  then have k: "ret_self (gst_ffmpegvidcmp_aggregate_frames calls_no_memory sample_configured
                            sample_store 3) = sample_configured"
    by simp
  show ?thesis
    using set_property_refused_with_filter_graph
            [where self = sample_running
               and v = "G_TYPE_ENUM GST_FFMPEGVIDCMP_METHOD_PSNR"]
          set_property_refused_with_filter_graph
            [where self = sample_running and v = "G_TYPE_STRING (Some ''stats.log'')"]
          set_property_refused_with_filter_graph
            [where self = sample_elem and v = "G_TYPE_ENUM GST_FFMPEGVIDCMP_METHOD_PSNR"]
          set_property_refused_with_filter_graph
            [where self = sample_elem and v = "G_TYPE_STRING (Some ''stats.log'')"]
          sample_running_facts e k
    by (simp add: prod_eq_iff)
qed

text \<open>
  Claim C3 as stated fails: a pair whose graph allocation failed is still forwarded with
  \<^verbatim>\<open>GST_FLOW_OK\<close>, the element has processed a pair and has no graph, and the method
  is then changed from SSIM to PSNR without a warning.
\<close>

theorem set_property_after_pair_counterexample:
  "returns (gst_ffmpegvidcmp_aggregate_frames calls_no_memory sample_configured sample_store 3)
   \<and> ret_flow (gst_ffmpegvidcmp_aggregate_frames calls_no_memory sample_configured
                  sample_store 3) = GST_FLOW_OK
   \<and> planes (ret_store (gst_ffmpegvidcmp_aggregate_frames calls_no_memory sample_configured
                           sample_store 3) 3) = planes (sample_store 1)
   \<and> filter_graph (ret_self (gst_ffmpegvidcmp_aggregate_frames calls_no_memory
                               sample_configured sample_store 3)) = None
   \<and> method_id (ret_self (gst_ffmpegvidcmp_aggregate_frames calls_no_memory sample_configured
                         sample_store 3)) = GST_FFMPEGVIDCMP_METHOD_SSIM
   \<and> gst_ffmpegvidcmp_set_property
       (ret_self (gst_ffmpegvidcmp_aggregate_frames calls_no_memory sample_configured
                    sample_store 3))
       PROP_VIDCMP_METHOD (G_TYPE_ENUM GST_FFMPEGVIDCMP_METHOD_PSNR)
     = ((ret_self (gst_ffmpegvidcmp_aggregate_frames calls_no_memory sample_configured
                     sample_store 3))\<lparr>method_id := GST_FFMPEGVIDCMP_METHOD_PSNR\<rparr>, [])"
proof -
  have s: "planes (sample_store 1) = [[100, 100, 100, 100]]"
    by (simp add: sample_store_def)
  have k: "method_id (ret_self (gst_ffmpegvidcmp_aggregate_frames calls_no_memory sample_configured
                         sample_store 3)) = GST_FFMPEGVIDCMP_METHOD_SSIM"
    by (simp add: sample_defs run_defs)
  show ?thesis
    using s k run_nomem
    by (simp add: gst_ffmpegvidcmp_set_property_def PROP_STATS_FILE_def PROP_VIDCMP_METHOD_def)
qed

subsection \<open>A missing frame\<close>

text \<open>
  Claim C5, as amended. \<^verbatim>\<open>aggregate_frames\<close> answers \<^verbatim>\<open>GST_FLOW_EOS\<close>, with the
  element and the store untouched and nothing logged, as soon as one of the two prepared
  frames is missing, whatever the end-of-stream flags of the pads; with both frames
  present it never answers \<^verbatim>\<open>GST_FLOW_EOS\<close>. There is no answer that asks to wait.
\<close>

theorem aggregate_frames_eos_when_frame_missing:
  "(prepared_frame (sinkpad1 self) = None \<or> prepared_frame (sinkpad2 self) = None
      \<longrightarrow> gst_ffmpegvidcmp_aggregate_frames e self st outbuf = Inr (GST_FLOW_EOS, self, st, []))
   \<and> (prepared_frame (sinkpad1 self) \<noteq> None \<and> prepared_frame (sinkpad2 self) \<noteq> None
      \<longrightarrow> (\<forall>s st' lg. gst_ffmpegvidcmp_aggregate_frames e self st outbuf
                          \<noteq> Inr (GST_FLOW_EOS, s, st', lg)))"
  by (auto simp: gst_ffmpegvidcmp_aggregate_frames_def
        gst_video_aggregator_pad_get_prepared_frame_def Let_def
        split: option.splits sum.splits prod.splits if_splits)

text \<open>
  With no frame on the first pad the answer is \<^verbatim>\<open>GST_FLOW_EOS\<close>; with both frames it
  is not.
\<close>

theorem aggregate_frames_eos_when_frame_missing_witness:
  "gst_ffmpegvidcmp_aggregate_frames calls_ok sample_starved sample_store 3
     = Inr (GST_FLOW_EOS, sample_starved, sample_store, [])
   \<and> ret_flow (gst_ffmpegvidcmp_aggregate_frames calls_ok sample_configured sample_store 3)
       \<noteq> GST_FLOW_EOS"
proof -
  have a: "prepared_frame (sinkpad1 sample_starved) = None"
    by (simp add: sample_starved_def)
  have b: "prepared_frame (sinkpad1 sample_configured) \<noteq> None"
    "prepared_frame (sinkpad2 sample_configured) \<noteq> None"
    by (simp_all add: sample_configured_frames)
  show ?thesis
    using aggregate_frames_eos_when_frame_missing
            [of sample_starved calls_ok sample_store 3] a
          aggregate_frames_eos_when_frame_missing
            [of sample_configured calls_ok sample_store 3] b run_ok(2)
    by simp
qed

text \<open>
  Claim C5 as stated fails: the first pad has no frame, neither pad has signalled
  end-of-stream, and the answer is \<^verbatim>\<open>GST_FLOW_EOS\<close>, not a wait.
\<close>

theorem starvation_returns_eos_counterexample:
  "prepared_frame (sinkpad1 sample_starved) = None
   \<and> pad_eos (sinkpad1 sample_starved) = False
   \<and> pad_eos (sinkpad2 sample_starved) = False
   \<and> gst_ffmpegvidcmp_aggregate_frames calls_ok sample_starved sample_store 3
       = Inr (GST_FLOW_EOS, sample_starved, sample_store, [])"
  by (simp add: sample_starved_def sample_defs Let_def
        gst_ffmpegvidcmp_aggregate_frames_def gst_video_aggregator_pad_get_prepared_frame_def)

subsection \<open>Caps\<close>

text \<open>
  Claim C6. With the pixel-format mapping of the spec, for caps that parse to a video
  info: when the format is outside \<^verbatim>\<open>GST_FFMPEGVIDCMP_FORMATS\<close>, \<^verbatim>\<open>setcaps\<close> returns
  \<^verbatim>\<open>FALSE\<close>, the pixel format it leaves is \<^verbatim>\<open>AV_PIX_FMT_NONE\<close>, and the caps event
  is refused even under a parent handler that accepts everything; when the format is
  inside the set, \<^verbatim>\<open>setcaps\<close> returns \<^verbatim>\<open>TRUE\<close>, logs nothing, and the element holds
  the width, height and frame rate of the caps and the mapped pixel format, which is not
  \<^verbatim>\<open>AV_PIX_FMT_NONE\<close>. (On the failure path the four geometry fields are already
  overwritten; what marks the element as not configured is the pixel format.)
\<close>

theorem setcaps_closed_format_set:
  assumes "from_caps caps = Some vinfo"
  shows "(GST_VIDEO_INFO_FORMAT vinfo \<notin> set GST_FFMPEGVIDCMP_FORMATS \<longrightarrow>
            fst (gst_ffmpegvidcmp_setcaps from_caps gst_ffmpeg_videoformat_to_pixfmt
                   self caps) = False
          \<and> pixfmt (fst (snd (gst_ffmpegvidcmp_setcaps from_caps
                                 gst_ffmpeg_videoformat_to_pixfmt self caps)))
              = AV_PIX_FMT_NONE
          \<and> fst (gst_ffmpegvidcmp_sink_event from_caps gst_ffmpeg_videoformat_to_pixfmt
                   (\<lambda>_. True) self (GST_EVENT_CAPS caps)) = False)
       \<and> (GST_VIDEO_INFO_FORMAT vinfo \<in> set GST_FFMPEGVIDCMP_FORMATS \<longrightarrow>
            gst_ffmpegvidcmp_setcaps from_caps gst_ffmpeg_videoformat_to_pixfmt self caps =
              (True,
               self\<lparr>width := GST_VIDEO_INFO_WIDTH vinfo,
                    height := GST_VIDEO_INFO_HEIGHT vinfo,
                    fps_num := GST_VIDEO_INFO_FPS_N vinfo,
                    fps_denom := GST_VIDEO_INFO_FPS_D vinfo,
                    pixfmt := gst_ffmpeg_videoformat_to_pixfmt (GST_VIDEO_INFO_FORMAT vinfo)\<rparr>,
               [])
          \<and> gst_ffmpeg_videoformat_to_pixfmt (GST_VIDEO_INFO_FORMAT vinfo) \<noteq> AV_PIX_FMT_NONE)"
  using assms in_formats_iff [of "GST_VIDEO_INFO_FORMAT vinfo"]
  by (auto simp: gst_ffmpegvidcmp_setcaps_def gst_ffmpegvidcmp_sink_event_def Let_def)

text \<open>A format outside the set and \<^verbatim>\<open>GRAY8\<close>, in the fresh element.\<close>

theorem setcaps_closed_format_set_witness:
  "fst (sample_setcaps sample_elem other_2x2) = False
   \<and> pixfmt (fst (snd (sample_setcaps sample_elem other_2x2))) = AV_PIX_FMT_NONE
   \<and> fst (sample_setcaps sample_elem gray8_2x2) = True
   \<and> width (fst (snd (sample_setcaps sample_elem gray8_2x2))) = 2
   \<and> pixfmt (fst (snd (sample_setcaps sample_elem gray8_2x2))) = AV_PIX_FMT_GRAY8"
proof -
  have o: "GST_VIDEO_INFO_FORMAT other_2x2 \<notin> set GST_FFMPEGVIDCMP_FORMATS"
    by (simp add: other_2x2_def gray8_2x2_def GST_FFMPEGVIDCMP_FORMATS_def)
  have g: "GST_VIDEO_INFO_FORMAT gray8_2x2 \<in> set GST_FFMPEGVIDCMP_FORMATS"
    by (simp add: gray8_2x2_def GST_FFMPEGVIDCMP_FORMATS_def)
  show ?thesis
    using setcaps_closed_format_set [of Some other_2x2 other_2x2 sample_elem] o
      setcaps_closed_format_set [of Some gray8_2x2 gray8_2x2 sample_elem] g
    by (simp add: gray8_2x2_def)
qed

text \<open>
  Claim C7, as amended. \<^verbatim>\<open>setcaps\<close> has no guard on the state of the element: in
  every state, and for every pixel-format mapping, caps that parse and whose format has a
  pixel format are accepted, the five negotiated fields are overwritten with those of the
  new caps, everything else is kept, and the caps event goes on to the parent handler.
\<close>

theorem setcaps_not_guarded_by_state:
  assumes "from_caps caps = Some vinfo"
    and "to_pixfmt (GST_VIDEO_INFO_FORMAT vinfo) \<noteq> AV_PIX_FMT_NONE"
  shows "gst_ffmpegvidcmp_setcaps from_caps to_pixfmt self caps =
           (True,
            self\<lparr>width := GST_VIDEO_INFO_WIDTH vinfo,
                 height := GST_VIDEO_INFO_HEIGHT vinfo,
                 fps_num := GST_VIDEO_INFO_FPS_N vinfo,
                 fps_denom := GST_VIDEO_INFO_FPS_D vinfo,
                 pixfmt := to_pixfmt (GST_VIDEO_INFO_FORMAT vinfo)\<rparr>,
            [])
         \<and> fst (gst_ffmpegvidcmp_sink_event from_caps to_pixfmt parent self
                  (GST_EVENT_CAPS caps))
             = parent (GST_EVENT_CAPS caps)"
  using assms
  by (simp add: gst_ffmpegvidcmp_setcaps_def gst_ffmpegvidcmp_sink_event_def Let_def)

text \<open>The running 2x2 element takes 4x4 caps.\<close>

theorem setcaps_not_guarded_by_state_witness:
  "fst (sample_setcaps sample_running gray8_4x4) = True
   \<and> width (fst (snd (sample_setcaps sample_running gray8_4x4))) = 4
   \<and> height (fst (snd (sample_setcaps sample_running gray8_4x4))) = 4"
proof -
  have c: "Some gray8_4x4 = Some gray8_4x4"
    by simp
  have f: "gst_ffmpeg_videoformat_to_pixfmt (GST_VIDEO_INFO_FORMAT gray8_4x4)
             \<noteq> AV_PIX_FMT_NONE"
    by (simp add: gray8_4x4_def gray8_2x2_def)
  show ?thesis
    using setcaps_not_guarded_by_state
            [where from_caps = Some and to_pixfmt = gst_ffmpeg_videoformat_to_pixfmt
               and self = sample_running, OF c f]
    by (simp add: gray8_4x4_def gray8_2x2_def)
qed

text \<open>
  Claim C7 as stated fails: in the element that has compared its first pair at 2x2, with
  its filter graph built, a second \<^verbatim>\<open>setcaps\<close> with 4x4 caps returns \<^verbatim>\<open>TRUE\<close>
  without a message and the stored geometry becomes 4x4.
\<close>

theorem reconfigure_after_first_pair_counterexample:
  "filter_graph sample_running \<noteq> None
   \<and> width sample_running = 2 \<and> height sample_running = 2
   \<and> fst (sample_setcaps sample_running gray8_4x4) = True
   \<and> width (fst (snd (sample_setcaps sample_running gray8_4x4))) = 4
   \<and> height (fst (snd (sample_setcaps sample_running gray8_4x4))) = 4
   \<and> snd (snd (sample_setcaps sample_running gray8_4x4)) = []"
  using sample_running_facts(1,2,3)
  by (simp add: gst_ffmpegvidcmp_setcaps_def gray8_4x4_def gray8_2x2_def Let_def)

text \<open>
  Claim C8. Reset followed by \<^verbatim>\<open>setcaps\<close> with the same caps, done a second time on
  the state the first round left, gives the same return value, the same element (width,
  height, frame rate, pixel format, filter graph and contexts, and everything else) and
  the same log as the first round, whatever the caps and whether or not they are
  accepted.
\<close>

theorem reset_setcaps_twice:
  "gst_ffmpegvidcmp_setcaps from_caps to_pixfmt
     (gst_ffmpegvidcmp_reset
        (fst (snd (gst_ffmpegvidcmp_setcaps from_caps to_pixfmt
                     (gst_ffmpegvidcmp_reset self) caps)))) caps
   = gst_ffmpegvidcmp_setcaps from_caps to_pixfmt (gst_ffmpegvidcmp_reset self) caps"
  by (simp add: gst_ffmpegvidcmp_setcaps_def gst_ffmpegvidcmp_reset_def Let_def
           split: option.splits)

text \<open>On the running element and 4x4 caps: both rounds end at 4x4 without a graph.\<close>

theorem reset_setcaps_twice_witness:
  "sample_setcaps
     (gst_ffmpegvidcmp_reset
        (fst (snd (sample_setcaps (gst_ffmpegvidcmp_reset sample_running) gray8_4x4))))
     gray8_4x4
   = sample_setcaps (gst_ffmpegvidcmp_reset sample_running) gray8_4x4
   \<and> width (fst (snd (sample_setcaps (gst_ffmpegvidcmp_reset sample_running) gray8_4x4))) = 4
   \<and> filter_graph (fst (snd (sample_setcaps (gst_ffmpegvidcmp_reset sample_running)
                               gray8_4x4))) = None"
  using reset_setcaps_twice
          [of Some gst_ffmpeg_videoformat_to_pixfmt sample_running gray8_4x4]
  by (simp add: gst_ffmpegvidcmp_setcaps_def gst_ffmpegvidcmp_reset_def gray8_4x4_def
        gray8_2x2_def Let_def)

subsection \<open>The guard follows the filter graph\<close>

text \<open>
  Claim C9. A set of \<^verbatim>\<open>stats-file\<close> or \<^verbatim>\<open>method\<close> stores the new value exactly when
  the element has no filter graph, and keeps the old one otherwise; reset leaves the
  element without a filter graph, so after every reset both sets store their value.
\<close>

theorem write_once_guard:
  "stats_file (fst (gst_ffmpegvidcmp_set_property self PROP_STATS_FILE v))
     = (if filter_graph self = None then g_value_get_string v else stats_file self)
   \<and> method_id (fst (gst_ffmpegvidcmp_set_property self PROP_VIDCMP_METHOD v))
     = (if filter_graph self = None then g_value_get_enum v else method_id self)
   \<and> filter_graph (gst_ffmpegvidcmp_reset self) = None
   \<and> stats_file (fst (gst_ffmpegvidcmp_set_property (gst_ffmpegvidcmp_reset self)
                         PROP_STATS_FILE v)) = g_value_get_string v
   \<and> method_id (fst (gst_ffmpegvidcmp_set_property (gst_ffmpegvidcmp_reset self)
                     PROP_VIDCMP_METHOD v)) = g_value_get_enum v"
  by (simp add: gst_ffmpegvidcmp_set_property_def gst_ffmpegvidcmp_reset_def
        PROP_STATS_FILE_def PROP_VIDCMP_METHOD_def)

text \<open>
  The running element refuses the method, takes it after a reset; the fresh element
  takes a stats file.
\<close>

theorem write_once_guard_witness:
  "method_id (fst (gst_ffmpegvidcmp_set_property sample_running PROP_VIDCMP_METHOD
                  (G_TYPE_ENUM GST_FFMPEGVIDCMP_METHOD_PSNR))) = GST_FFMPEGVIDCMP_METHOD_SSIM
   \<and> method_id (fst (gst_ffmpegvidcmp_set_property (gst_ffmpegvidcmp_reset sample_running)
                    PROP_VIDCMP_METHOD (G_TYPE_ENUM GST_FFMPEGVIDCMP_METHOD_PSNR)))
       = GST_FFMPEGVIDCMP_METHOD_PSNR
   \<and> stats_file (fst (gst_ffmpegvidcmp_set_property sample_elem PROP_STATS_FILE
                        (G_TYPE_STRING (Some ''stats.log'')))) = Some ''stats.log''"
proof -
  have e: "filter_graph sample_elem = None"
    by (simp add: sample_elem_def gst_ffmpegvidcmp_init_def gst_ffmpegvidcmp_reset_def)
  show ?thesis
    using write_once_guard [of sample_running "G_TYPE_ENUM GST_FFMPEGVIDCMP_METHOD_PSNR"]
      write_once_guard [of sample_elem "G_TYPE_STRING (Some ''stats.log'')"]
      sample_running_facts(1,4) e
    by simp
qed

subsection \<open>Output caps\<close>

text \<open>
  Claim C10. The caps \<^verbatim>\<open>update_caps\<close> hands to the parent class are made from the
  first sink pad's video info: the result is the parent handler applied to exactly
  those caps, the caps proposed by the caller play no part, and with a parent handler
  that works on the caps it is handed the second sink pad plays no part either.
\<close>

theorem update_caps_from_first_pad:
  "gst_ffmpegvidcmp_update_caps to_caps parent self caps
     = parent self (to_caps (pad_info (sinkpad1 self)))
   \<and> gst_ffmpegvidcmp_update_caps to_caps parent self caps
     = gst_ffmpegvidcmp_update_caps to_caps parent self caps'
   \<and> gst_ffmpegvidcmp_update_caps to_caps (\<lambda>_. p) (self\<lparr>sinkpad2 := pad2\<rparr>) caps
     = gst_ffmpegvidcmp_update_caps to_caps (\<lambda>_. p) self caps"
  by (simp add: gst_ffmpegvidcmp_update_caps_def)

text \<open>
  With infos for caps and a parent that returns the caps it is handed: the second pad
  negotiated 4x4, 4x4 is proposed, and the output is the first pad's 2x2.
\<close>

theorem update_caps_from_first_pad_witness:
  "gst_ffmpegvidcmp_update_caps (\<lambda>i. i) (\<lambda>_ c. c)
     (sample_configured\<lparr>sinkpad2 := (sample_pad 2)\<lparr>pad_info := gray8_4x4\<rparr>\<rparr>) gray8_4x4
   = pad_info (sample_pad 1)"
  using update_caps_from_first_pad
          [of "\<lambda>i. i" "\<lambda>_ c. c"
              "sample_configured\<lparr>sinkpad2 := (sample_pad 2)\<lparr>pad_info := gray8_4x4\<rparr>\<rparr>"
              gray8_4x4]
  by (simp add: sample_configured_def sample_elem_def gst_ffmpegvidcmp_init_def
        gst_ffmpegvidcmp_reset_def gst_ffmpegvidcmp_setcaps_def gray8_2x2_def Let_def)

end
